theory Spec2Isabelle
  imports Main "HOL-Library.Sublist"
begin

section \<open>The implementations code lens of the TypeScript language features\<close>

text \<open>
  A shallow embedding of \<^verbatim>\<open>implementationsCodeLensProvider.ts\<close>: the method
  \<^verbatim>\<open>extractSymbol\<close>, which decides where a lens is placed, and the method
  \<^verbatim>\<open>resolveCodeLens\<close>, which turns the answer of the language service into the
  command of the lens.
\<close>

subsection \<open>Editor and protocol data\<close>

text \<open>
  A \<^verbatim>\<open>vscode.Uri\<close> is represented by the string its \<^verbatim>\<open>toString()\<close> gives: the
  provider compares URIs through \<^verbatim>\<open>toString()\<close> only. Line and column numbers are
  JavaScript numbers holding integers. The classes \<^verbatim>\<open>vscode.Position\<close>,
  \<^verbatim>\<open>vscode.Range\<close> and \<^verbatim>\<open>vscode.Location\<close> belong to the editor, not to this
  file: a value of them is the record of the arguments its constructor is given, as in
  the data model of the specification.
\<close>

type_synonym Uri = string

record vscode_Position =
  pos_line :: int
  pos_character :: int

record vscode_Range =
  range_start :: vscode_Position
  range_end :: vscode_Position

record vscode_Location =
  loc_uri :: Uri
  loc_range :: vscode_Range

text \<open>
  \<^verbatim>\<open>Proto.Location\<close> (a 1-based line and column), \<^verbatim>\<open>Proto.FileSpan\<close> and the
  response of the request, whose body is optional.
\<close>

record Proto_Location =
  line :: int
  offset :: int

record Proto_FileSpan =
  fs_file :: string
  fs_start :: Proto_Location
  fs_end :: Proto_Location

record Proto_ImplementationResponse =
  body :: "Proto_FileSpan list option"

text \<open>
  \<^verbatim>\<open>vscode.Command\<close>: the error branch of \<^verbatim>\<open>resolveCodeLens\<close> sets no
  \<^verbatim>\<open>arguments\<close>, the other branch sets the triple
  \<^verbatim>\<open>[codeLens.document, codeLens.range.start, locations]\<close>.
\<close>

record vscode_Command =
  cmd_title :: string
  cmd_command :: string
  cmd_arguments :: "(Uri \<times> vscode_Position \<times> vscode_Location list) option"

text \<open>\<^verbatim>\<open>ReferencesCodeLens\<close>: a code lens with the file and document it belongs to.\<close>

record ReferencesCodeLens =
  cl_file :: string
  cl_document :: Uri
  cl_range :: vscode_Range
  cl_command :: "vscode_Command option"

text \<open>
  Modelled from the spec: \<^verbatim>\<open>PConst.Kind\<close> of \<^verbatim>\<open>protocol.const\<close> is not part of
  this file; the specification gives the kind of a symbol node as an enumeration of the
  six kinds the provider looks at and of every other kind.
\<close>

datatype Kind =
    Kind_interface
  | Kind_class
  | Kind_memberFunction
  | Kind_memberVariable
  | Kind_memberGetAccessor
  | Kind_memberSetAccessor
  | Kind_other string

text \<open>\<^verbatim>\<open>Proto.NavigationTree\<close>, with the fields a symbol node has.\<close>

datatype NavigationTree = NavigationTree
  (nt_text: string)
  (nt_kind: Kind)
  (nt_kindModifiers: string)
  (nt_spans: "(Proto_Location \<times> Proto_Location) list")
  (nt_childItems: "NavigationTree list")

subsection \<open>The regular expression \<^verbatim>\<open>/\babstract\b/g\<close>\<close>

text \<open>
  A word character of a JavaScript regular expression is a letter of the basic Latin
  alphabet, a decimal digit or the underscore. The modifiers of the service are ASCII
  words separated by commas, so a string is a list of 8-bit characters here.
\<close>

definition isWordChar :: "char \<Rightarrow> bool" where
  "isWordChar c =
     (let n = (of_char c :: nat)
      in (48 \<le> n \<and> n \<le> 57) \<or> (65 \<le> n \<and> n \<le> 90) \<or> n = 95 \<or> (97 \<le> n \<and> n \<le> 122))"

text \<open>
  \<^verbatim>\<open>\b\<close> holds between two neighbouring places of the string when exactly one of them
  holds a word character; a place outside the string (\<open>None\<close>) holds none.
\<close>

definition isWordAt :: "char option \<Rightarrow> bool" where
  "isWordAt p = (case p of None \<Rightarrow> False | Some c \<Rightarrow> isWordChar c)"

definition wordBoundary :: "char option \<Rightarrow> char option \<Rightarrow> bool" where
  "wordBoundary l r = (isWordAt l \<noteq> isWordAt r)"

definition firstChar :: "string \<Rightarrow> char option" where
  "firstChar s = (case s of [] \<Rightarrow> None | c # _ \<Rightarrow> Some c)"

text \<open>
  An attempt of the pattern at one place: \<open>prev\<close> is the character before the place and
  \<open>s\<close> the rest of the string from the place on.
\<close>

definition matchHere :: "char option \<Rightarrow> string \<Rightarrow> bool" where
  "matchHere prev s =
     (wordBoundary prev (firstChar s) \<and>
      take 8 s = ''abstract'' \<and>
      wordBoundary (Some CHR ''t'') (firstChar (drop 8 s)))"

text \<open>The search tries every place from left to right.\<close>

fun searchFrom :: "char option \<Rightarrow> string \<Rightarrow> bool" where
  "searchFrom prev [] = matchHere prev []"
| "searchFrom prev (c # cs) = (matchHere prev (c # cs) \<or> searchFrom (Some c) cs)"

text \<open>
  \<^verbatim>\<open>item.kindModifiers.match(/\babstract\b/g)\<close> is an array of the matches, or
  \<^verbatim>\<open>null\<close> when there is none; the provider only tests whether it is truthy.
\<close>

definition matchAbstract :: "string \<Rightarrow> bool" where
  "matchAbstract kindModifiers = searchFrom None kindModifiers"

text \<open>
  The wording of the specification: the modifiers contain \<^verbatim>\<open>abstract\<close> as a
  standalone token, one that is not part of a longer word on either side.
\<close>

definition standaloneAbstract :: "string \<Rightarrow> bool" where
  "standaloneAbstract s =
     (\<exists>pre post. s = pre @ ''abstract'' @ post \<and>
        (pre = [] \<or> \<not> isWordChar (last pre)) \<and>
        (post = [] \<or> \<not> isWordChar (hd post)))"

subsection \<open>\<^verbatim>\<open>extractSymbol\<close>\<close>

text \<open>
  \<^verbatim>\<open>super.getSymbolRange\<close> belongs to the base class, which is not part of this file:
  it is a parameter of the model, with \<^verbatim>\<open>null\<close> as \<open>None\<close>. The parent node is an
  argument that the method never reads.
\<close>

definition extractSymbol ::
  "('doc \<Rightarrow> NavigationTree \<Rightarrow> vscode_Range option) \<Rightarrow>
   'doc \<Rightarrow> NavigationTree \<Rightarrow> NavigationTree option \<Rightarrow> vscode_Range option" where
  "extractSymbol getSymbolRange document item parent =
     (case nt_kind item of
        Kind_interface \<Rightarrow> getSymbolRange document item
      | Kind_class \<Rightarrow>
          if matchAbstract (nt_kindModifiers item) then getSymbolRange document item else None
      | Kind_memberFunction \<Rightarrow>
          if matchAbstract (nt_kindModifiers item) then getSymbolRange document item else None
      | Kind_memberVariable \<Rightarrow>
          if matchAbstract (nt_kindModifiers item) then getSymbolRange document item else None
      | Kind_memberGetAccessor \<Rightarrow>
          if matchAbstract (nt_kindModifiers item) then getSymbolRange document item else None
      | Kind_memberSetAccessor \<Rightarrow>
          if matchAbstract (nt_kindModifiers item) then getSymbolRange document item else None
      | Kind_other k \<Rightarrow> None)"

text \<open>
  Modelled from the spec: the body of \<^verbatim>\<open>getSymbolRange\<close> is missing; the
  specification describes it as an injected capability that gives a range for every
  document and node. \<open>symbolRangeOf g\<close> is such a capability.
\<close>

definition symbolRangeOf ::
  "('doc \<Rightarrow> NavigationTree \<Rightarrow> vscode_Range) \<Rightarrow> 'doc \<Rightarrow> NavigationTree \<Rightarrow> vscode_Range option" where
  "symbolRangeOf g document item = Some (g document item)"

subsection \<open>\<^verbatim>\<open>resolveCodeLens\<close>\<close>

text \<open>
  Modelled from the spec: \<^verbatim>\<open>typeConverters.Range.fromTextSpan\<close> is missing; the
  specification has the 1-based lines and columns of the service normalised to 0-based
  display coordinates.
\<close>

definition fromTextSpan :: "Proto_FileSpan \<Rightarrow> vscode_Range" where
  "fromTextSpan span =
     \<lparr>range_start = \<lparr>pos_line = line (fs_start span) - 1,
                     pos_character = offset (fs_start span) - 1\<rparr>,
      range_end = \<lparr>pos_line = line (fs_end span) - 1,
                   pos_character = offset (fs_end span) - 1\<rparr>\<rparr>"

text \<open>The function given to \<^verbatim>\<open>map\<close>; \<^verbatim>\<open>client.asUrl\<close> is a parameter.\<close>

definition toLocation :: "(string \<Rightarrow> Uri) \<Rightarrow> Proto_FileSpan \<Rightarrow> vscode_Location" where
  "toLocation asUrl reference =
     \<lparr>loc_uri = asUrl (fs_file reference),
      loc_range =
        (if line (fs_start reference) = line (fs_end reference)
         then fromTextSpan reference
         else \<lparr>range_start = \<lparr>pos_line = line (fs_start reference) - 1,
                              pos_character = offset (fs_start reference) - 1\<rparr>,
               range_end = \<lparr>pos_line = line (fs_start reference), pos_character = 0\<rparr>\<rparr>)\<rparr>"

text \<open>The test of \<^verbatim>\<open>filter\<close> keeps a location unless it is the lens itself.\<close>

definition isOriginal :: "ReferencesCodeLens \<Rightarrow> vscode_Location \<Rightarrow> bool" where
  "isOriginal codeLens location =
     (loc_uri location = cl_document codeLens \<and>
      pos_line (range_start (loc_range location)) = pos_line (range_start (cl_range codeLens)) \<and>
      pos_character (range_start (loc_range location)) =
        pos_character (range_start (cl_range codeLens)))"

definition locations ::
  "(string \<Rightarrow> Uri) \<Rightarrow> ReferencesCodeLens \<Rightarrow> Proto_FileSpan list \<Rightarrow> vscode_Location list" where
  "locations asUrl codeLens responseBody =
     filter (\<lambda>location. \<not> isOriginal codeLens location) (map (toLocation asUrl) responseBody)"

text \<open>The decimal digits of a length, as JavaScript writes a non-negative integer.\<close>

definition digit :: "nat \<Rightarrow> char" where
  "digit d = char_of (48 + d)"

function decimal :: "nat \<Rightarrow> string" where
  "decimal n = (if n < 10 then [digit n] else decimal (n div 10) @ [digit (n mod 10)])"
  by pat_completeness auto
termination
  by (relation "measure (\<lambda>n. n)") auto

declare decimal.simps [simp del]

text \<open>
  \<^verbatim>\<open>localize(key, message, arg)\<close> of the default message bundle: the message with
  every \<^verbatim>\<open>{0}\<close> replaced by the argument.
\<close>

fun format0 :: "string \<Rightarrow> string \<Rightarrow> string" where
  "format0 [] arg = []"
| "format0 (c # cs) arg =
     (if take 3 (c # cs) = ''{0}'' then arg @ format0 (drop 2 cs) arg
      else c # format0 cs arg)"

definition localize :: "string \<Rightarrow> string \<Rightarrow> string \<Rightarrow> string" where
  "localize key message arg = format0 message arg"

text \<open>
  How a promise settles: rejected with a reason (\<open>Inl\<close>) or fulfilled with a value
  (\<open>Inr\<close>). The request is rejected when it is cancelled or when the service fails;
  \<^verbatim>\<open>throw codeLens\<close> rejects with the lens.
\<close>

datatype Rejection = Cancelled | QueryFailed | ThrownCodeLens

definition then_promise ::
  "('a \<Rightarrow> Rejection + 'b) \<Rightarrow> Rejection + 'a \<Rightarrow> Rejection + 'b" where
  "then_promise onFulfilled p = (case p of Inl r \<Rightarrow> Inl r | Inr v \<Rightarrow> onFulfilled v)"

definition catch_promise ::
  "(Rejection \<Rightarrow> Rejection + 'a) \<Rightarrow> Rejection + 'a \<Rightarrow> Rejection + 'a" where
  "catch_promise onRejected p = (case p of Inl r \<Rightarrow> onRejected r | Inr v \<Rightarrow> Inr v)"

text \<open>The callback of \<^verbatim>\<open>then\<close>; the response itself may be missing.\<close>

definition onResponse ::
  "(string \<Rightarrow> Uri) \<Rightarrow> ReferencesCodeLens \<Rightarrow> Proto_ImplementationResponse option \<Rightarrow>
   Rejection + ReferencesCodeLens" where
  "onResponse asUrl codeLens response =
     (case response of
        None \<Rightarrow> Inl ThrownCodeLens
      | Some r \<Rightarrow>
          (case body r of
             None \<Rightarrow> Inl ThrownCodeLens
           | Some responseBody \<Rightarrow>
               (let locs = locations asUrl codeLens responseBody
                in Inr (codeLens\<lparr>cl_command := Some
                     \<lparr>cmd_title =
                        (if length locs = 1
                         then localize ''oneImplementationLabel'' ''1 implementation'' []
                         else localize ''manyImplementationLabel'' ''{0} implementations''
                                (decimal (length locs))),
                      cmd_command =
                        (if length locs \<noteq> 0 then ''editor.action.showReferences'' else []),
                      cmd_arguments =
                        Some (cl_document codeLens, range_start (cl_range codeLens), locs)\<rparr>\<rparr>))))"

text \<open>The callback of \<^verbatim>\<open>catch\<close>.\<close>

definition onError :: "ReferencesCodeLens \<Rightarrow> Rejection \<Rightarrow> Rejection + ReferencesCodeLens" where
  "onError codeLens r =
     Inr (codeLens\<lparr>cl_command := Some
       \<lparr>cmd_title =
          localize ''implementationsErrorLabel'' ''Could not determine implementations'' [],
        cmd_command = [],
        cmd_arguments = None\<rparr>\<rparr>)"

text \<open>
  \<^verbatim>\<open>resolveCodeLens\<close>, given how the request
  \<^verbatim>\<open>client.execute('implementation', args, token)\<close> settled.
\<close>

definition resolveCodeLens ::
  "(string \<Rightarrow> Uri) \<Rightarrow> ReferencesCodeLens \<Rightarrow>
   Rejection + Proto_ImplementationResponse option \<Rightarrow> Rejection + ReferencesCodeLens" where
  "resolveCodeLens asUrl codeLens executed =
     catch_promise (onError codeLens) (then_promise (onResponse asUrl codeLens) executed)"

subsection \<open>Example data\<close>

text \<open>
  Concrete inputs for the examples below: a client whose \<^verbatim>\<open>asUrl\<close> puts the scheme
  in front of the path, a lens at a position of a file, a hit of the service, and a
  \<^verbatim>\<open>getSymbolRange\<close> that gives the span of the name on the first line.
\<close>

definition fileUrl :: "string \<Rightarrow> Uri" where
  "fileUrl path = ''file://'' @ path"

definition lensAt :: "string \<Rightarrow> int \<Rightarrow> int \<Rightarrow> ReferencesCodeLens" where
  "lensAt path l c =
     \<lparr>cl_file = path,
      cl_document = fileUrl path,
      cl_range = \<lparr>range_start = \<lparr>pos_line = l, pos_character = c\<rparr>,
                  range_end = \<lparr>pos_line = l, pos_character = c + 1\<rparr>\<rparr>,
      cl_command = None\<rparr>"

definition hit :: "string \<Rightarrow> int \<Rightarrow> int \<Rightarrow> int \<Rightarrow> int \<Rightarrow> Proto_FileSpan" where
  "hit path sl sc el ec =
     \<lparr>fs_file = path,
      fs_start = \<lparr>line = sl, offset = sc\<rparr>,
      fs_end = \<lparr>line = el, offset = ec\<rparr>\<rparr>"

definition nameRange :: "unit \<Rightarrow> NavigationTree \<Rightarrow> vscode_Range" where
  "nameRange document item =
     \<lparr>range_start = \<lparr>pos_line = 0, pos_character = 0\<rparr>,
      range_end = \<lparr>pos_line = 0, pos_character = int (length (nt_text item))\<rparr>\<rparr>"

text \<open>The number that a string of decimal digits denotes.\<close>

definition decimalValue :: "string \<Rightarrow> nat" where
  "decimalValue s = foldl (\<lambda>a c. 10 * a + (of_char c - 48)) 0 s"

section \<open>Properties\<close>

subsection \<open>The regular expression finds exactly the standalone token\<close>

lemma isWordChar_a_t: "isWordChar CHR ''a''" "isWordChar CHR ''t''"
  by (simp_all add: isWordChar_def)

lemma take8_abstract: "take 8 s = ''abstract'' \<longleftrightarrow> (\<exists>post. s = ''abstract'' @ post)"
proof
  assume h: "take 8 s = ''abstract''"
  have "s = take 8 s @ drop 8 s" by simp
  with h have "s = ''abstract'' @ drop 8 s" by metis
  then show "\<exists>post. s = ''abstract'' @ post" ..
next
  assume "\<exists>post. s = ''abstract'' @ post"
  then show "take 8 s = ''abstract''" by auto
qed

text \<open>
  An attempt succeeds at a place iff no word character stands before the place, the
  string goes on with \<^verbatim>\<open>abstract\<close>, and no word character follows.
\<close>

lemma matchHere_iff:
  "matchHere prev s \<longleftrightarrow>
     \<not> isWordAt prev \<and> (\<exists>post. s = ''abstract'' @ post \<and> (post = [] \<or> \<not> isWordChar (hd post)))"
proof (cases "take 8 s = ''abstract''")
  case True
  then obtain post where s: "s = ''abstract'' @ post" using take8_abstract by blast
  show ?thesis
    by (cases post)
      (simp_all add: s matchHere_def wordBoundary_def firstChar_def isWordAt_def isWordChar_a_t)
next
  case False
  then show ?thesis using take8_abstract by (auto simp: matchHere_def)
qed

lemma searchFrom_iff:
  "searchFrom prev s \<longleftrightarrow>
     (\<exists>pre post. s = pre @ ''abstract'' @ post \<and>
        (if pre = [] then \<not> isWordAt prev else \<not> isWordChar (last pre)) \<and>
        (post = [] \<or> \<not> isWordChar (hd post)))"
proof (induction s arbitrary: prev)
  case Nil
  show ?case by (simp add: matchHere_def)
next
  case (Cons c cs)
  show ?case (is "?L \<longleftrightarrow> ?R")
  proof
    assume ?L
    then consider (here) "matchHere prev (c # cs)" | (later) "searchFrom (Some c) cs" by auto
    then show ?R
    proof cases
      case here
      then obtain post where "c # cs = ''abstract'' @ post" "\<not> isWordAt prev"
        "post = [] \<or> \<not> isWordChar (hd post)" using matchHere_iff by blast
      then show ?thesis by (intro exI[of _ "[]"] exI[of _ post]) simp
    next
      case later
      then obtain pre post where p: "cs = pre @ ''abstract'' @ post"
        "if pre = [] then \<not> isWordAt (Some c) else \<not> isWordChar (last pre)"
        "post = [] \<or> \<not> isWordChar (hd post)" using Cons.IH by blast
      then show ?thesis
        by (intro exI[of _ "c # pre"] exI[of _ post]) (auto simp: isWordAt_def split: if_splits)
    qed
  next
    assume ?R
    then obtain pre post where p: "c # cs = pre @ ''abstract'' @ post"
        "if pre = [] then \<not> isWordAt prev else \<not> isWordChar (last pre)"
        "post = [] \<or> \<not> isWordChar (hd post)" by blast
    show ?L
    proof (cases pre)
      case Nil
      with p have "matchHere prev (c # cs)" unfolding matchHere_iff by auto
      then show ?thesis by simp
    next
      case (Cons d pre')
      with p have cs: "cs = pre' @ ''abstract'' @ post" and d: "d = c" by auto
      have "if pre' = [] then \<not> isWordAt (Some c) else \<not> isWordChar (last pre')"
        using p(2) Cons d by (auto simp: isWordAt_def split: if_splits)
      with cs p(3) have "searchFrom (Some c) cs" unfolding Cons.IH by blast
      then show ?thesis by simp
    qed
  qed
qed

lemma matchAbstract_iff: "matchAbstract s \<longleftrightarrow> standaloneAbstract s"
  unfolding matchAbstract_def standaloneAbstract_def searchFrom_iff
  by (auto simp: isWordAt_def)

lemma matchAbstract_examples:
  "matchAbstract ''abstract''" "matchAbstract ''export,abstract''"
  "\<not> matchAbstract ''abstractfoo''" "\<not> matchAbstract ''fooabstract''"
  by code_simp+

subsection \<open>Labels\<close>

lemma of_char_digit: "d < 10 \<Longrightarrow> (of_char (digit d) :: nat) = 48 + d"
  by (simp add: digit_def)

text \<open>The digits written for a length denote that length.\<close>

lemma decimalValue_decimal: "decimalValue (decimal n) = n"
proof (induction n rule: decimal.induct)
  case (1 n)
  show ?case
  proof (cases "n < 10")
    case True
    then show ?thesis by (simp add: decimal.simps [of n] decimalValue_def of_char_digit)
  next
    case False
    then have "decimalValue (decimal (n div 10)) = n div 10" using 1 by simp
    then show ?thesis using False
      by (simp add: decimal.simps [of n] decimalValue_def of_char_digit)
  qed
qed

lemma decimal_examples: "decimal 0 = ''0''" "decimal 1 = ''1''" "decimal 2 = ''2''"
  by code_simp+

lemma decimal_Suc_Suc_Suc_0: "decimal (Suc (Suc (Suc 0))) = ''3''"
proof -
  have "decimal 3 = ''3''" by code_simp
  then show ?thesis by (simp add: numeral_3_eq_3)
qed

subsection \<open>The four ways \<^verbatim>\<open>resolveCodeLens\<close> ends\<close>

lemmas resolve_defs = resolveCodeLens_def then_promise_def catch_promise_def onResponse_def
  onError_def localize_def

lemma resolve_rejected:
  "resolveCodeLens asUrl codeLens (Inl r) =
     Inr (codeLens\<lparr>cl_command := Some
       \<lparr>cmd_title = ''Could not determine implementations'', cmd_command = [],
        cmd_arguments = None\<rparr>\<rparr>)"
  by (simp add: resolve_defs)

lemma resolve_no_response:
  "resolveCodeLens asUrl codeLens (Inr None) =
     Inr (codeLens\<lparr>cl_command := Some
       \<lparr>cmd_title = ''Could not determine implementations'', cmd_command = [],
        cmd_arguments = None\<rparr>\<rparr>)"
  by (simp add: resolve_defs)

lemma resolve_no_body:
  "body r = None \<Longrightarrow> resolveCodeLens asUrl codeLens (Inr (Some r)) =
     Inr (codeLens\<lparr>cl_command := Some
       \<lparr>cmd_title = ''Could not determine implementations'', cmd_command = [],
        cmd_arguments = None\<rparr>\<rparr>)"
  by (simp add: resolve_defs)

lemma resolve_body:
  "body r = Some responseBody \<Longrightarrow> resolveCodeLens asUrl codeLens (Inr (Some r)) =
     Inr (codeLens\<lparr>cl_command := Some
       \<lparr>cmd_title =
          (if length (locations asUrl codeLens responseBody) = 1 then ''1 implementation''
           else decimal (length (locations asUrl codeLens responseBody)) @ '' implementations''),
        cmd_command =
          (if 1 \<le> length (locations asUrl codeLens responseBody)
           then ''editor.action.showReferences'' else []),
        cmd_arguments =
          Some (cl_document codeLens, range_start (cl_range codeLens),
                locations asUrl codeLens responseBody)\<rparr>\<rparr>)"
  by (auto simp: resolve_defs Let_def Suc_le_eq)

subsection \<open>Examples of the reduction\<close>

lemma lensAt_sel:
  "cl_document (lensAt path l c) = fileUrl path"
  "range_start (cl_range (lensAt path l c)) = \<lparr>pos_line = l, pos_character = c\<rparr>"
  by (simp_all add: lensAt_def)

lemma locations_examples:
  "locations fileUrl (lensAt ''/a.ts'' 4 2) [hit ''/a.ts'' 5 3 8 1] = []"
  "locations fileUrl (lensAt ''/a.ts'' 4 2) [hit ''/a.ts'' 5 3 8 1, hit ''/b.ts'' 5 3 5 9] =
     [\<lparr>loc_uri = ''file:///b.ts'',
       loc_range = \<lparr>range_start = \<lparr>pos_line = 4, pos_character = 2\<rparr>,
                    range_end = \<lparr>pos_line = 4, pos_character = 8\<rparr>\<rparr>\<rparr>]"
  "locations fileUrl (lensAt ''/a.ts'' 4 2) [hit ''/b.ts'' 5 3 5 9, hit ''/b.ts'' 5 3 5 9] =
     [\<lparr>loc_uri = ''file:///b.ts'',
       loc_range = \<lparr>range_start = \<lparr>pos_line = 4, pos_character = 2\<rparr>,
                    range_end = \<lparr>pos_line = 4, pos_character = 8\<rparr>\<rparr>\<rparr>,
      \<lparr>loc_uri = ''file:///b.ts'',
       loc_range = \<lparr>range_start = \<lparr>pos_line = 4, pos_character = 2\<rparr>,
                    range_end = \<lparr>pos_line = 4, pos_character = 8\<rparr>\<rparr>\<rparr>]"
  by (simp_all add: locations_def toLocation_def isOriginal_def fromTextSpan_def hit_def
      lensAt_def fileUrl_def)

lemma locations_example_duplicates:
  "locations fileUrl (lensAt ''/a.ts'' 4 2)
     [hit ''/a.ts'' 5 3 8 1, hit ''/b.ts'' 5 3 5 9, hit ''/b.ts'' 5 3 5 9, hit ''/c.ts'' 7 1 7 4] =
     [\<lparr>loc_uri = ''file:///b.ts'',
       loc_range = \<lparr>range_start = \<lparr>pos_line = 4, pos_character = 2\<rparr>,
                    range_end = \<lparr>pos_line = 4, pos_character = 8\<rparr>\<rparr>\<rparr>,
      \<lparr>loc_uri = ''file:///b.ts'',
       loc_range = \<lparr>range_start = \<lparr>pos_line = 4, pos_character = 2\<rparr>,
                    range_end = \<lparr>pos_line = 4, pos_character = 8\<rparr>\<rparr>\<rparr>,
      \<lparr>loc_uri = ''file:///c.ts'',
       loc_range = \<lparr>range_start = \<lparr>pos_line = 6, pos_character = 0\<rparr>,
                    range_end = \<lparr>pos_line = 6, pos_character = 3\<rparr>\<rparr>\<rparr>]"
  by (simp add: locations_def toLocation_def isOriginal_def fromTextSpan_def hit_def
      lensAt_def fileUrl_def)

lemma toLocation_examples:
  "toLocation fileUrl (hit ''/a.ts'' 5 3 8 1) =
     \<lparr>loc_uri = ''file:///a.ts'',
      loc_range = \<lparr>range_start = \<lparr>pos_line = 4, pos_character = 2\<rparr>,
                   range_end = \<lparr>pos_line = 5, pos_character = 0\<rparr>\<rparr>\<rparr>"
  "toLocation fileUrl (hit ''/a.ts'' 9 1 9 5) =
     \<lparr>loc_uri = ''file:///a.ts'',
      loc_range = \<lparr>range_start = \<lparr>pos_line = 8, pos_character = 0\<rparr>,
                   range_end = \<lparr>pos_line = 8, pos_character = 4\<rparr>\<rparr>\<rparr>"
  by (simp_all add: toLocation_def fromTextSpan_def hit_def fileUrl_def)

section \<open>The claims\<close>

subsection \<open>The classifier\<close>

text \<open>
  Claim C2. For a symbol node whose kind is class, member function, member variable, get
  accessor or set accessor, \<^verbatim>\<open>extractSymbol\<close> gives the symbol range exactly when the
  modifiers contain \<^verbatim>\<open>abstract\<close> as a standalone token between word boundaries, and
  \<^verbatim>\<open>null\<close> otherwise; \<^verbatim>\<open>abstractfoo\<close> and \<^verbatim>\<open>fooabstract\<close> hold no such token.
  The first equation is for the capability of the specification, which always gives a
  range; the second holds for every \<^verbatim>\<open>getSymbolRange\<close>.
\<close>

theorem extractSymbol_abstract_kinds:
  assumes "nt_kind item \<in> {Kind_class, Kind_memberFunction, Kind_memberVariable,
                           Kind_memberGetAccessor, Kind_memberSetAccessor}"
  shows "extractSymbol (symbolRangeOf g) document item parent =
           (if standaloneAbstract (nt_kindModifiers item) then Some (g document item) else None)
         \<and> extractSymbol getSymbolRange document item parent =
           (if standaloneAbstract (nt_kindModifiers item) then getSymbolRange document item
            else None)
         \<and> \<not> standaloneAbstract ''abstractfoo'' \<and> \<not> standaloneAbstract ''fooabstract''"
proof -
  have ex: "\<not> standaloneAbstract ''abstractfoo''" "\<not> standaloneAbstract ''fooabstract''"
    using matchAbstract_examples by (simp_all add: matchAbstract_iff [symmetric])
  have gen: "extractSymbol f document item parent =
           (if standaloneAbstract (nt_kindModifiers item) then f document item else None)" for f
    using assms by (auto simp: extractSymbol_def matchAbstract_iff)
  show ?thesis using gen [of "symbolRangeOf g"] gen [of getSymbolRange] ex
    by (simp add: symbolRangeOf_def)
qed

theorem extractSymbol_abstract_kinds_witness:
  "nt_kind (NavigationTree ''C'' Kind_class ''export,abstract'' [] []) \<in>
     {Kind_class, Kind_memberFunction, Kind_memberVariable,
      Kind_memberGetAccessor, Kind_memberSetAccessor}
   \<and> standaloneAbstract ''export,abstract''
   \<and> extractSymbol (symbolRangeOf nameRange) ()
        (NavigationTree ''C'' Kind_class ''export,abstract'' [] []) None =
      Some (nameRange () (NavigationTree ''C'' Kind_class ''export,abstract'' [] []))
   \<and> extractSymbol (symbolRangeOf nameRange) ()
        (NavigationTree ''m'' Kind_memberFunction ''abstractfoo'' [] []) None = None"
proof -
  let ?c = "NavigationTree ''C'' Kind_class ''export,abstract'' [] []"
  let ?m = "NavigationTree ''m'' Kind_memberFunction ''abstractfoo'' [] []"
  let ?five = "{Kind_class, Kind_memberFunction, Kind_memberVariable,
                Kind_memberGetAccessor, Kind_memberSetAccessor}"
  have kc: "nt_kind ?c \<in> ?five" and km: "nt_kind ?m \<in> ?five" by simp_all
  note tc = extractSymbol_abstract_kinds
    [OF kc, where g = nameRange and document = "()" and parent = None]
  note tm = extractSymbol_abstract_kinds
    [OF km, where g = nameRange and document = "()" and parent = None]
  have run: "extractSymbol (symbolRangeOf nameRange) () ?c None = Some (nameRange () ?c)"
    by (simp add: extractSymbol_def symbolRangeOf_def matchAbstract_examples)
  have tok: "standaloneAbstract ''export,abstract''"
    using tc run by (simp split: if_splits)
  have none: "extractSymbol (symbolRangeOf nameRange) () ?m None = None"
    using tm by simp
  show ?thesis using kc tok run none by blast
qed

text \<open>
  Claim C7. For an interface \<^verbatim>\<open>extractSymbol\<close> gives what \<^verbatim>\<open>getSymbolRange\<close>
  gives, whatever the modifiers are: a range, with the capability of the specification.
  For a kind that is neither interface nor one of the five kinds checked for
  \<^verbatim>\<open>abstract\<close> it gives \<^verbatim>\<open>null\<close>.
\<close>

theorem extractSymbol_interface_and_other:
  "(nt_kind item = Kind_interface \<longrightarrow>
      extractSymbol getSymbolRange document item parent = getSymbolRange document item \<and>
      extractSymbol (symbolRangeOf g) document item parent = Some (g document item))
   \<and> (nt_kind item \<notin> {Kind_interface, Kind_class, Kind_memberFunction, Kind_memberVariable,
                        Kind_memberGetAccessor, Kind_memberSetAccessor} \<longrightarrow>
      extractSymbol getSymbolRange document item parent = None)"
  by (cases "nt_kind item") (simp_all add: extractSymbol_def symbolRangeOf_def)

theorem extractSymbol_interface_and_other_witness:
  "nt_kind (NavigationTree ''I'' Kind_interface ''export'' [] []) = Kind_interface
   \<and> extractSymbol (symbolRangeOf nameRange) ()
        (NavigationTree ''I'' Kind_interface ''export'' [] []) None =
      Some (nameRange () (NavigationTree ''I'' Kind_interface ''export'' [] []))
   \<and> nt_kind (NavigationTree ''f'' (Kind_other ''function'') ''abstract'' [] []) \<notin>
        {Kind_interface, Kind_class, Kind_memberFunction, Kind_memberVariable,
         Kind_memberGetAccessor, Kind_memberSetAccessor}
   \<and> extractSymbol (symbolRangeOf nameRange) ()
        (NavigationTree ''f'' (Kind_other ''function'') ''abstract'' [] []) None = None"
  using extractSymbol_interface_and_other
      [where item = "NavigationTree ''I'' Kind_interface ''export'' [] []"
        and getSymbolRange = "symbolRangeOf nameRange" and document = "()" and parent = None
        and g = nameRange]
    extractSymbol_interface_and_other
      [where item = "NavigationTree ''f'' (Kind_other ''function'') ''abstract'' [] []"
        and getSymbolRange = "symbolRangeOf nameRange" and document = "()" and parent = None
        and g = nameRange]
  by (simp add: symbolRangeOf_def)

text \<open>
  Claim C9. The result of \<^verbatim>\<open>extractSymbol\<close> does not depend on the parent node: any
  two parents, \<^verbatim>\<open>null\<close> among them, give the same result.
\<close>

theorem extractSymbol_parent_independent:
  "extractSymbol getSymbolRange document item parent1 =
   extractSymbol getSymbolRange document item parent2"
  by (simp add: extractSymbol_def)

subsection \<open>From the hits to the jump targets\<close>

text \<open>
  Claim C3. The display range of a hit: when the hit starts and ends on one line, the
  range of the hit with every line and column moved from 1-based to 0-based; otherwise
  the range from (start line - 1, start column - 1) to (start line, 0). The hit from
  (5, 3) to (8, 1) gives the range from (4, 2) to (5, 0).
\<close>

theorem toLocation_display_range:
  "(line (fs_start reference) = line (fs_end reference) \<longrightarrow>
      loc_range (toLocation asUrl reference) =
        \<lparr>range_start = \<lparr>pos_line = line (fs_start reference) - 1,
                        pos_character = offset (fs_start reference) - 1\<rparr>,
         range_end = \<lparr>pos_line = line (fs_end reference) - 1,
                      pos_character = offset (fs_end reference) - 1\<rparr>\<rparr>)
   \<and> (line (fs_start reference) \<noteq> line (fs_end reference) \<longrightarrow>
      loc_range (toLocation asUrl reference) =
        \<lparr>range_start = \<lparr>pos_line = line (fs_start reference) - 1,
                        pos_character = offset (fs_start reference) - 1\<rparr>,
         range_end = \<lparr>pos_line = line (fs_start reference), pos_character = 0\<rparr>\<rparr>)"
  by (simp add: toLocation_def fromTextSpan_def)

theorem toLocation_display_range_witness:
  "loc_range (toLocation fileUrl (hit ''/b.ts'' 5 3 8 1)) =
     \<lparr>range_start = \<lparr>pos_line = 4, pos_character = 2\<rparr>,
      range_end = \<lparr>pos_line = 5, pos_character = 0\<rparr>\<rparr>
   \<and> loc_range (toLocation fileUrl (hit ''/b.ts'' 5 3 5 9)) =
     \<lparr>range_start = \<lparr>pos_line = 4, pos_character = 2\<rparr>,
      range_end = \<lparr>pos_line = 4, pos_character = 8\<rparr>\<rparr>"
  using toLocation_display_range [where reference = "hit ''/b.ts'' 5 3 8 1" and asUrl = fileUrl]
    toLocation_display_range [where reference = "hit ''/b.ts'' 5 3 5 9" and asUrl = fileUrl]
  by (simp add: hit_def)

text \<open>
  Claim C4. A location whose URI, start line and start column are those of the lens is
  not among the jump targets, and nothing else is removed: every other location is among
  the targets as often as among the locations of the hits. So a hit of the same file
  whose display range starts elsewhere is kept.
\<close>

theorem locations_exclude_original_only:
  "(loc_uri location = cl_document codeLens \<and>
    pos_line (range_start (loc_range location)) = pos_line (range_start (cl_range codeLens)) \<and>
    pos_character (range_start (loc_range location)) =
      pos_character (range_start (cl_range codeLens))
    \<longrightarrow> location \<notin> set (locations asUrl codeLens responseBody))
   \<and> (\<not> (loc_uri location = cl_document codeLens \<and>
        pos_line (range_start (loc_range location)) = pos_line (range_start (cl_range codeLens)) \<and>
        pos_character (range_start (loc_range location)) =
          pos_character (range_start (cl_range codeLens)))
    \<longrightarrow> count_list (locations asUrl codeLens responseBody) location =
        count_list (map (toLocation asUrl) responseBody) location)
   \<and> (reference \<in> set responseBody \<and>
      range_start (loc_range (toLocation asUrl reference)) \<noteq> range_start (cl_range codeLens)
    \<longrightarrow> toLocation asUrl reference \<in> set (locations asUrl codeLens responseBody))"
proof -
  have cnt: "\<not> P x \<Longrightarrow> count_list (filter (\<lambda>y. \<not> P y) xs) x = count_list xs x"
    for P :: "vscode_Location \<Rightarrow> bool" and x xs
    by (induction xs) auto
  have pos: "p = q \<longleftrightarrow> pos_line p = pos_line q \<and> pos_character p = pos_character q"
    for p q :: vscode_Position
    by auto
  show ?thesis
    using cnt [of "isOriginal codeLens" location "map (toLocation asUrl) responseBody"]
    by (auto simp: locations_def isOriginal_def pos)
qed

theorem locations_exclude_original_only_witness:
  "toLocation fileUrl (hit ''/a.ts'' 5 3 8 1) \<notin>
     set (locations fileUrl (lensAt ''/a.ts'' 4 2) [hit ''/a.ts'' 5 3 8 1, hit ''/a.ts'' 9 1 9 5])
   \<and> toLocation fileUrl (hit ''/a.ts'' 9 1 9 5) \<in>
     set (locations fileUrl (lensAt ''/a.ts'' 4 2) [hit ''/a.ts'' 5 3 8 1, hit ''/a.ts'' 9 1 9 5])
   \<and> count_list
       (locations fileUrl (lensAt ''/a.ts'' 4 2) [hit ''/a.ts'' 5 3 8 1, hit ''/a.ts'' 9 1 9 5])
       (toLocation fileUrl (hit ''/a.ts'' 9 1 9 5)) = 1"
  using locations_exclude_original_only
      [where location = "toLocation fileUrl (hit ''/a.ts'' 5 3 8 1)"
        and codeLens = "lensAt ''/a.ts'' 4 2" and asUrl = fileUrl
        and responseBody = "[hit ''/a.ts'' 5 3 8 1, hit ''/a.ts'' 9 1 9 5]"
        and reference = "hit ''/a.ts'' 9 1 9 5"]
    locations_exclude_original_only
      [where location = "toLocation fileUrl (hit ''/a.ts'' 9 1 9 5)"
        and codeLens = "lensAt ''/a.ts'' 4 2" and asUrl = fileUrl
        and responseBody = "[hit ''/a.ts'' 5 3 8 1, hit ''/a.ts'' 9 1 9 5]"
        and reference = "hit ''/a.ts'' 9 1 9 5"]
  by (simp add: toLocation_examples lensAt_sel fileUrl_def)

text \<open>
  Claim C10. The jump targets keep the order of the response: they are a subsequence of
  the locations of the hits, namely the locations, in order, of the hits that are not
  the lens itself.
\<close>

theorem locations_order_preserved:
  "subseq (locations asUrl codeLens responseBody) (map (toLocation asUrl) responseBody)
   \<and> locations asUrl codeLens responseBody =
       map (toLocation asUrl)
         (filter (\<lambda>reference. \<not> isOriginal codeLens (toLocation asUrl reference)) responseBody)"
proof
  show "subseq (locations asUrl codeLens responseBody) (map (toLocation asUrl) responseBody)"
    unfolding locations_def by (rule subseq_filter_left)
  show "locations asUrl codeLens responseBody =
       map (toLocation asUrl)
         (filter (\<lambda>reference. \<not> isOriginal codeLens (toLocation asUrl reference)) responseBody)"
    by (simp add: locations_def filter_map comp_def)
qed

text \<open>
  Claim C8, as the code has it. The jump targets are the display locations of the hits,
  in the order of the response, without those whose URI, start line and start column
  are those of the lens. They are not deduplicated: a location other than the lens is a
  target as often as the hits give it, so a hit that the response holds twice is a target
  twice. No two targets are equal when the locations of the hits are pairwise different.
\<close>

theorem locations_keep_duplicates:
  "locations asUrl codeLens responseBody =
     map (toLocation asUrl)
       (filter
         (\<lambda>reference.
            \<not> (loc_uri (toLocation asUrl reference) = cl_document codeLens \<and>
               pos_line (range_start (loc_range (toLocation asUrl reference))) =
                 pos_line (range_start (cl_range codeLens)) \<and>
               pos_character (range_start (loc_range (toLocation asUrl reference))) =
                 pos_character (range_start (cl_range codeLens))))
         responseBody)
   \<and> (\<not> (loc_uri location = cl_document codeLens \<and>
          pos_line (range_start (loc_range location)) =
            pos_line (range_start (cl_range codeLens)) \<and>
          pos_character (range_start (loc_range location)) =
            pos_character (range_start (cl_range codeLens)))
      \<longrightarrow> count_list (locations asUrl codeLens responseBody) location =
          count_list (map (toLocation asUrl) responseBody) location)
   \<and> (distinct (map (toLocation asUrl) responseBody)
      \<longrightarrow> distinct (locations asUrl codeLens responseBody))"
proof (intro conjI impI)
  show "locations asUrl codeLens responseBody =
     map (toLocation asUrl)
       (filter
         (\<lambda>reference.
            \<not> (loc_uri (toLocation asUrl reference) = cl_document codeLens \<and>
               pos_line (range_start (loc_range (toLocation asUrl reference))) =
                 pos_line (range_start (cl_range codeLens)) \<and>
               pos_character (range_start (loc_range (toLocation asUrl reference))) =
                 pos_character (range_start (cl_range codeLens))))
         responseBody)"
    by (simp add: locations_def isOriginal_def filter_map comp_def)
next
  assume n: "\<not> (loc_uri location = cl_document codeLens \<and>
          pos_line (range_start (loc_range location)) =
            pos_line (range_start (cl_range codeLens)) \<and>
          pos_character (range_start (loc_range location)) =
            pos_character (range_start (cl_range codeLens)))"
  have cnt: "\<not> P x \<Longrightarrow> count_list (filter (\<lambda>y. \<not> P y) xs) x = count_list xs x"
    for P :: "vscode_Location \<Rightarrow> bool" and x xs
    by (induction xs) auto
  from n have "\<not> isOriginal codeLens location" by (simp add: isOriginal_def)
  then show "count_list (locations asUrl codeLens responseBody) location =
          count_list (map (toLocation asUrl) responseBody) location"
    unfolding locations_def by (rule cnt)
next
  assume "distinct (map (toLocation asUrl) responseBody)"
  then show "distinct (locations asUrl codeLens responseBody)"
    by (simp add: locations_def)
qed

theorem locations_keep_duplicates_witness:
  "locations fileUrl (lensAt ''/a.ts'' 4 2)
     [hit ''/a.ts'' 5 3 8 1, hit ''/b.ts'' 5 3 5 9, hit ''/b.ts'' 5 3 5 9, hit ''/c.ts'' 7 1 7 4] =
     [toLocation fileUrl (hit ''/b.ts'' 5 3 5 9), toLocation fileUrl (hit ''/b.ts'' 5 3 5 9),
      toLocation fileUrl (hit ''/c.ts'' 7 1 7 4)]
   \<and> count_list
       (locations fileUrl (lensAt ''/a.ts'' 4 2)
         [hit ''/a.ts'' 5 3 8 1, hit ''/b.ts'' 5 3 5 9, hit ''/b.ts'' 5 3 5 9,
          hit ''/c.ts'' 7 1 7 4])
       (toLocation fileUrl (hit ''/b.ts'' 5 3 5 9)) = 2
   \<and> distinct (map (toLocation fileUrl) [hit ''/b.ts'' 5 3 5 9, hit ''/c.ts'' 7 1 7 4])
   \<and> distinct (locations fileUrl (lensAt ''/a.ts'' 4 2)
        [hit ''/b.ts'' 5 3 5 9, hit ''/c.ts'' 7 1 7 4])"
proof -
  let ?lens = "lensAt ''/a.ts'' 4 2"
  let ?b = "hit ''/b.ts'' 5 3 5 9"
  let ?c = "hit ''/c.ts'' 7 1 7 4"
  let ?body = "[hit ''/a.ts'' 5 3 8 1, ?b, ?b, ?c]"
  note t = locations_keep_duplicates
    [where asUrl = fileUrl and codeLens = ?lens and responseBody = ?body
       and location = "toLocation fileUrl ?b"]
  note u = locations_keep_duplicates
    [where asUrl = fileUrl and codeLens = ?lens and responseBody = "[?b, ?c]"]
  have other: "\<not> (loc_uri (toLocation fileUrl ?b) = cl_document ?lens \<and>
          pos_line (range_start (loc_range (toLocation fileUrl ?b))) =
            pos_line (range_start (cl_range ?lens)) \<and>
          pos_character (range_start (loc_range (toLocation fileUrl ?b))) =
            pos_character (range_start (cl_range ?lens)))"
    by (simp add: toLocation_def hit_def fileUrl_def lensAt_def)
  have d: "distinct (map (toLocation fileUrl) [?b, ?c])"
    by (simp add: toLocation_def hit_def fileUrl_def)
  have l: "locations fileUrl ?lens ?body =
     [toLocation fileUrl ?b, toLocation fileUrl ?b, toLocation fileUrl ?c]"
    using t by (simp add: toLocation_def hit_def fileUrl_def lensAt_def fromTextSpan_def)
  have c: "count_list (locations fileUrl ?lens ?body) (toLocation fileUrl ?b) = 2"
    using t other by (simp add: toLocation_def hit_def fileUrl_def fromTextSpan_def)
  have dl: "distinct (locations fileUrl ?lens [?b, ?c])"
    using u d by blast
  show ?thesis using l c d dl by blast
qed

text \<open>
  Claim C8, as the specification has it, fails: for a response that holds the lens
  itself, one hit twice and another hit once, the label is \<^verbatim>\<open>3 implementations\<close>
  and the targets hold the same location twice.
\<close>

theorem locations_duplicates_counterexample:
  "resolveCodeLens fileUrl (lensAt ''/a.ts'' 4 2)
      (Inr (Some \<lparr>body = Some [hit ''/a.ts'' 5 3 8 1, hit ''/b.ts'' 5 3 5 9,
                                hit ''/b.ts'' 5 3 5 9, hit ''/c.ts'' 7 1 7 4]\<rparr>)) =
     Inr ((lensAt ''/a.ts'' 4 2)\<lparr>cl_command := Some
       \<lparr>cmd_title = ''3 implementations'', cmd_command = ''editor.action.showReferences'',
        cmd_arguments = Some (''file:///a.ts'', \<lparr>pos_line = 4, pos_character = 2\<rparr>,
          [\<lparr>loc_uri = ''file:///b.ts'',
            loc_range = \<lparr>range_start = \<lparr>pos_line = 4, pos_character = 2\<rparr>,
                         range_end = \<lparr>pos_line = 4, pos_character = 8\<rparr>\<rparr>\<rparr>,
           \<lparr>loc_uri = ''file:///b.ts'',
            loc_range = \<lparr>range_start = \<lparr>pos_line = 4, pos_character = 2\<rparr>,
                         range_end = \<lparr>pos_line = 4, pos_character = 8\<rparr>\<rparr>\<rparr>,
           \<lparr>loc_uri = ''file:///c.ts'',
            loc_range = \<lparr>range_start = \<lparr>pos_line = 6, pos_character = 0\<rparr>,
                         range_end = \<lparr>pos_line = 6, pos_character = 3\<rparr>\<rparr>\<rparr>])\<rparr>\<rparr>)
   \<and> \<not> distinct (locations fileUrl (lensAt ''/a.ts'' 4 2)
           [hit ''/a.ts'' 5 3 8 1, hit ''/b.ts'' 5 3 5 9, hit ''/b.ts'' 5 3 5 9,
            hit ''/c.ts'' 7 1 7 4])"
  by (simp add: resolve_body locations_example_duplicates decimal_Suc_Suc_Suc_0 lensAt_sel
      fileUrl_def)

subsection \<open>The label and the command\<close>

text \<open>
  Claim C5. When the response has a body, the lens gets the label
  \<^verbatim>\<open>1 implementation\<close> for one jump target and the number of targets in decimal
  digits followed by \<^verbatim>\<open> implementations\<close> otherwise, \<^verbatim>\<open>0 implementations\<close> for
  none; the command is \<^verbatim>\<open>editor.action.showReferences\<close> for one target or more and
  the empty command for none; the arguments are the document, the start of the range of
  the lens and the targets.
\<close>

theorem resolve_label_and_command:
  "resolveCodeLens asUrl codeLens (Inr (Some \<lparr>body = Some responseBody\<rparr>)) =
     Inr (codeLens\<lparr>cl_command := Some
       \<lparr>cmd_title =
          (if length (locations asUrl codeLens responseBody) = 1 then ''1 implementation''
           else decimal (length (locations asUrl codeLens responseBody)) @ '' implementations''),
        cmd_command =
          (if 1 \<le> length (locations asUrl codeLens responseBody)
           then ''editor.action.showReferences'' else []),
        cmd_arguments =
          Some (cl_document codeLens, range_start (cl_range codeLens),
                locations asUrl codeLens responseBody)\<rparr>\<rparr>)
   \<and> decimalValue (decimal (length (locations asUrl codeLens responseBody))) =
       length (locations asUrl codeLens responseBody)
   \<and> decimal 0 = ''0''"
  by (simp add: resolve_body decimalValue_decimal decimal_examples)

theorem resolve_label_and_command_witness:
  "resolveCodeLens fileUrl (lensAt ''/a.ts'' 4 2)
      (Inr (Some \<lparr>body = Some [hit ''/a.ts'' 5 3 8 1]\<rparr>)) =
     Inr ((lensAt ''/a.ts'' 4 2)\<lparr>cl_command := Some
       \<lparr>cmd_title = ''0 implementations'', cmd_command = [],
        cmd_arguments = Some (''file:///a.ts'', \<lparr>pos_line = 4, pos_character = 2\<rparr>, [])\<rparr>\<rparr>)
   \<and> resolveCodeLens fileUrl (lensAt ''/a.ts'' 4 2)
      (Inr (Some \<lparr>body = Some [hit ''/a.ts'' 5 3 8 1, hit ''/b.ts'' 5 3 5 9]\<rparr>)) =
     Inr ((lensAt ''/a.ts'' 4 2)\<lparr>cl_command := Some
       \<lparr>cmd_title = ''1 implementation'', cmd_command = ''editor.action.showReferences'',
        cmd_arguments = Some (''file:///a.ts'', \<lparr>pos_line = 4, pos_character = 2\<rparr>,
          [\<lparr>loc_uri = ''file:///b.ts'',
            loc_range = \<lparr>range_start = \<lparr>pos_line = 4, pos_character = 2\<rparr>,
                         range_end = \<lparr>pos_line = 4, pos_character = 8\<rparr>\<rparr>\<rparr>])\<rparr>\<rparr>)"
  using resolve_label_and_command [where asUrl = fileUrl and codeLens = "lensAt ''/a.ts'' 4 2"
      and responseBody = "[hit ''/a.ts'' 5 3 8 1]"]
    resolve_label_and_command [where asUrl = fileUrl and codeLens = "lensAt ''/a.ts'' 4 2"
      and responseBody = "[hit ''/a.ts'' 5 3 8 1, hit ''/b.ts'' 5 3 5 9]"]
  by (simp add: locations_examples decimal_examples lensAt_sel fileUrl_def)

subsection \<open>Failures\<close>

text \<open>
  Claim C6. When the request is cancelled, when it fails, and when the response or its
  body is missing, \<^verbatim>\<open>resolveCodeLens\<close> gives the same lens: the label
  \<^verbatim>\<open>Could not determine implementations\<close> and the empty command. However the request
  settles, the promise of \<^verbatim>\<open>resolveCodeLens\<close> is fulfilled, never rejected.
\<close>

theorem resolve_failure_generic:
  "resolveCodeLens asUrl codeLens (Inl Cancelled) =
     Inr (codeLens\<lparr>cl_command := Some
       \<lparr>cmd_title = ''Could not determine implementations'', cmd_command = [],
        cmd_arguments = None\<rparr>\<rparr>)
   \<and> resolveCodeLens asUrl codeLens (Inl QueryFailed) =
     Inr (codeLens\<lparr>cl_command := Some
       \<lparr>cmd_title = ''Could not determine implementations'', cmd_command = [],
        cmd_arguments = None\<rparr>\<rparr>)
   \<and> resolveCodeLens asUrl codeLens (Inr None) =
     Inr (codeLens\<lparr>cl_command := Some
       \<lparr>cmd_title = ''Could not determine implementations'', cmd_command = [],
        cmd_arguments = None\<rparr>\<rparr>)
   \<and> resolveCodeLens asUrl codeLens (Inr (Some \<lparr>body = None\<rparr>)) =
     Inr (codeLens\<lparr>cl_command := Some
       \<lparr>cmd_title = ''Could not determine implementations'', cmd_command = [],
        cmd_arguments = None\<rparr>\<rparr>)
   \<and> (\<forall>executed. \<exists>resolved. resolveCodeLens asUrl codeLens executed = Inr resolved)"
proof -
  have "\<exists>resolved. resolveCodeLens asUrl codeLens executed = Inr resolved" for executed
  proof (cases executed)
    case (Inl r)
    then show ?thesis by (simp add: resolve_rejected)
  next
    case (Inr response)
    show ?thesis
    proof (cases response)
      case None
      with Inr show ?thesis by (simp add: resolve_no_response)
    next
      case (Some r)
      with Inr show ?thesis by (cases "body r") (simp_all add: resolve_no_body resolve_body)
    qed
  qed
  then show ?thesis
    by (simp add: resolve_rejected resolve_no_response resolve_no_body)
qed

text \<open>
  Claim C1, as the code has it. A missing response and a response without a body are
  failures, with the label \<^verbatim>\<open>Could not determine implementations\<close>. A body that is
  there and holds no hit is not a failure: it gives the label
  \<^verbatim>\<open>0 implementations\<close> and the empty command.
\<close>

theorem resolve_missing_body_fails_empty_body_counts:
  "resolveCodeLens asUrl codeLens (Inr None) =
     Inr (codeLens\<lparr>cl_command := Some
       \<lparr>cmd_title = ''Could not determine implementations'', cmd_command = [],
        cmd_arguments = None\<rparr>\<rparr>)
   \<and> resolveCodeLens asUrl codeLens (Inr (Some \<lparr>body = None\<rparr>)) =
     Inr (codeLens\<lparr>cl_command := Some
       \<lparr>cmd_title = ''Could not determine implementations'', cmd_command = [],
        cmd_arguments = None\<rparr>\<rparr>)
   \<and> resolveCodeLens asUrl codeLens (Inr (Some \<lparr>body = Some []\<rparr>)) =
     Inr (codeLens\<lparr>cl_command := Some
       \<lparr>cmd_title = ''0 implementations'', cmd_command = [],
        cmd_arguments = Some (cl_document codeLens, range_start (cl_range codeLens), [])\<rparr>\<rparr>)"
  by (simp add: resolve_no_response resolve_no_body resolve_body locations_def decimal_examples)

text \<open>
  Claim C1, as the specification has it, fails: for a response whose body is the empty
  list \<^verbatim>\<open>resolveCodeLens\<close> gives the label \<^verbatim>\<open>0 implementations\<close>, not the lens
  of a failure.
\<close>

theorem resolve_empty_body_counterexample:
  "resolveCodeLens fileUrl (lensAt ''/a.ts'' 4 2) (Inr (Some \<lparr>body = Some []\<rparr>)) =
     Inr ((lensAt ''/a.ts'' 4 2)\<lparr>cl_command := Some
       \<lparr>cmd_title = ''0 implementations'', cmd_command = [],
        cmd_arguments = Some (''file:///a.ts'', \<lparr>pos_line = 4, pos_character = 2\<rparr>, [])\<rparr>\<rparr>)
   \<and> resolveCodeLens fileUrl (lensAt ''/a.ts'' 4 2) (Inr (Some \<lparr>body = Some []\<rparr>)) \<noteq>
     Inr ((lensAt ''/a.ts'' 4 2)\<lparr>cl_command := Some
       \<lparr>cmd_title = ''Could not determine implementations'', cmd_command = [],
        cmd_arguments = None\<rparr>\<rparr>)"
  by (simp add: resolve_body locations_def decimal_examples lensAt_def fileUrl_def)

end
